theory Spec2Isabelle
  imports Main
begin

section \<open>Python values, exceptions and the object store\<close>

text \<open>
  \<^verbatim>\<open>result_variants.py\<close> defines two classes, \<^verbatim>\<open>Ok\<close> and \<^verbatim>\<open>Err\<close>, both
  subclasses of \<^verbatim>\<open>ResultAbc\<close>, each with the single slot \<^verbatim>\<open>value\<close>. Their
  instances are mutable objects (\<^verbatim>\<open>wrap\<close> assigns to \<^verbatim>\<open>self.value\<close>), so they
  live in a store and are handled through references. The store is a list: an
  address is an index, and a constructor call appends.
\<close>

type_synonym addr = nat

text \<open>
  The values the code handles. \<open>PRef a\<close> is a reference to the \<^verbatim>\<open>Result\<close> object at
  address \<open>a\<close>. An exception object is represented by the method resolution order of
  its class (the names of the class and of all its bases), a message and its other
  instance attributes; an object of any other class by the name of the class and its
  instance attributes.
\<close>

datatype pyval =
    PNone
  | PBool bool
  | PInt int
  | PStr string
  | PTuple "pyval list"
  | PExc pyexc
  | PRef addr
  | PObject (class_name: string) (obj_attrs: "(string \<times> pyval) list")
and pyexc = PyExc (mro: "string list") (msg: string) (exc_attrs: "(string \<times> pyval) list")

text \<open>
  The clause \<^verbatim>\<open>except Exception as e\<close> matches exactly the objects whose class has
  \<^verbatim>\<open>Exception\<close> among its bases.
\<close>

definition isinstance_Exception :: "pyexc \<Rightarrow> bool" where
  "isinstance_Exception e = (''Exception'' \<in> set (mro e))"

definition ZeroDivisionError :: pyexc where
  "ZeroDivisionError =
     PyExc [''ZeroDivisionError'', ''ArithmeticError'', ''Exception'', ''BaseException'', ''object'']
       ''division by zero'' []"

definition AttributeError :: pyexc where
  "AttributeError =
     PyExc [''AttributeError'', ''Exception'', ''BaseException'', ''object'']
       ''object has no attribute value'' []"

definition SystemExit :: pyexc where
  "SystemExit = PyExc [''SystemExit'', ''BaseException'', ''object''] [] []"

definition KeyboardInterrupt :: pyexc where
  "KeyboardInterrupt = PyExc [''KeyboardInterrupt'', ''BaseException'', ''object''] [] []"

text \<open>\<^verbatim>\<open>StopIteration(v)\<close>: an exception whose instances have the attribute
  \<^verbatim>\<open>value\<close>.\<close>

definition StopIteration :: "pyval \<Rightarrow> pyexc" where
  "StopIteration v =
     PyExc [''StopIteration'', ''Exception'', ''BaseException'', ''object''] [] [(''value'', v)]"

text \<open>The class of an instance, and the instance with its one slot.\<close>

datatype variant = Ok | Err

record result_obj =
  cls :: variant
  value' :: pyval

type_synonym heap = "result_obj list"

text \<open>
  A call either returns a value or raises: \<open>Inl\<close> is the raised exception. A
  caller-supplied function may allocate and mutate objects, so it takes the store
  and returns it.
\<close>

type_synonym outcome = "(pyexc + pyval) \<times> heap"

type_synonym callable = "pyval \<Rightarrow> heap \<Rightarrow> outcome"

type_synonym callable_star = "pyval list \<Rightarrow> (string \<times> pyval) list \<Rightarrow> heap \<Rightarrow> outcome"

text \<open>\<^verbatim>\<open>isinstance(x, ResultAbc)\<close>: the objects of the store are the instances of
  \<^verbatim>\<open>Ok\<close> and \<^verbatim>\<open>Err\<close>, and both classes derive from \<^verbatim>\<open>ResultAbc\<close>.\<close>

fun subclass_of_ResultAbc :: "variant \<Rightarrow> bool" where
  "subclass_of_ResultAbc Ok = True"
| "subclass_of_ResultAbc Err = True"

fun isinstance_ResultAbc :: "heap \<Rightarrow> pyval \<Rightarrow> bool" where
  "isinstance_ResultAbc h (PRef a) = subclass_of_ResultAbc (cls (h ! a))"
| "isinstance_ResultAbc h _ = False"

text \<open>
  The attribute access \<^verbatim>\<open>other.value\<close>. A \<^verbatim>\<open>Result\<close> object has the slot; an
  exception or an object of another class has the attribute when it is among its
  instance attributes; \<^verbatim>\<open>None\<close>, booleans, integers, strings and tuples do not have
  it. Where the attribute is missing Python raises \<^verbatim>\<open>AttributeError\<close>.
\<close>

definition lookup_value :: "(string \<times> pyval) list \<Rightarrow> pyexc + pyval" where
  "lookup_value attrs =
     (case map_of attrs ''value'' of None \<Rightarrow> Inl AttributeError | Some v \<Rightarrow> Inr v)"

fun getattr_value :: "heap \<Rightarrow> pyval \<Rightarrow> pyexc + pyval" where
  "getattr_value h (PRef a) = Inr (value' (h ! a))"
| "getattr_value h (PExc e) = lookup_value (exc_attrs e)"
| "getattr_value h (PObject c attrs) = lookup_value attrs"
| "getattr_value h _ = Inl AttributeError"

section \<open>Constructors\<close>

text \<open>\<^verbatim>\<open>Ok(value)\<close> and \<^verbatim>\<open>Err(value)\<close>: a new object of the class, whose
  \<^verbatim>\<open>__init__\<close> stores the argument in the slot. The call returns the address of
  the new object and the extended store.\<close>

definition Ok_init :: "heap \<Rightarrow> pyval \<Rightarrow> addr \<times> heap" where
  "Ok_init h v = (length h, h @ [\<lparr>cls = Ok, value' = v\<rparr>])"

definition Err_init :: "heap \<Rightarrow> pyval \<Rightarrow> addr \<times> heap" where
  "Err_init h v = (length h, h @ [\<lparr>cls = Err, value' = v\<rparr>])"

section \<open>Class \<^verbatim>\<open>Ok\<close>\<close>

definition Ok_bool :: "heap \<Rightarrow> addr \<Rightarrow> outcome" where
  "Ok_bool h self = (Inr (PBool True), h)"

definition Ok_wrap :: "heap \<Rightarrow> addr \<Rightarrow> pyval \<Rightarrow> outcome" where
  "Ok_wrap h self v = (Inr (PRef self), h[self := (h ! self)\<lparr>value' := v\<rparr>])"

definition Ok_unwrap :: "heap \<Rightarrow> addr \<Rightarrow> outcome" where
  "Ok_unwrap h self = (Inr (value' (h ! self)), h)"

definition Ok_fmap :: "heap \<Rightarrow> addr \<Rightarrow> callable \<Rightarrow> outcome" where
  "Ok_fmap h self f =
     (case f (value' (h ! self)) h of
        (Inr y, h1) \<Rightarrow> (Inr (PRef (fst (Ok_init h1 y))), snd (Ok_init h1 y))
      | (Inl e, h1) \<Rightarrow>
          if isinstance_Exception e
          then (Inr (PRef (fst (Err_init h1 (PExc e)))), snd (Err_init h1 (PExc e)))
          else (Inl e, h1))"

definition Ok_and_fmap :: "heap \<Rightarrow> addr \<Rightarrow> callable \<Rightarrow> outcome" where
  "Ok_and_fmap = Ok_fmap"

definition Ok_bind :: "heap \<Rightarrow> addr \<Rightarrow> callable \<Rightarrow> outcome" where
  "Ok_bind h self f = f (value' (h ! self)) h"

definition Ok_and_bind :: "heap \<Rightarrow> addr \<Rightarrow> callable \<Rightarrow> outcome" where
  "Ok_and_bind = Ok_bind"

definition Ok_or_fmap :: "heap \<Rightarrow> addr \<Rightarrow> callable \<Rightarrow> outcome" where
  "Ok_or_fmap h self f = (Inr (PRef self), h)"

definition Ok_or_bind :: "heap \<Rightarrow> addr \<Rightarrow> callable \<Rightarrow> outcome" where
  "Ok_or_bind h self f = (Inr (PRef self), h)"

definition Ok_join :: "heap \<Rightarrow> addr \<Rightarrow> pyval \<Rightarrow> outcome" where
  "Ok_join h self other =
     (case getattr_value h other of
        Inl e \<Rightarrow> (Inl e, h)
      | Inr ov \<Rightarrow>
          (Inr (PRef (fst (Ok_init h (PTuple [value' (h ! self), ov])))),
           snd (Ok_init h (PTuple [value' (h ! self), ov]))))"

section \<open>Class \<^verbatim>\<open>Err\<close>\<close>

definition Err_bool :: "heap \<Rightarrow> addr \<Rightarrow> outcome" where
  "Err_bool h self = (Inr (PBool False), h)"

definition Err_wrap :: "heap \<Rightarrow> addr \<Rightarrow> pyval \<Rightarrow> outcome" where
  "Err_wrap h self v = (Inr (PRef self), h[self := (h ! self)\<lparr>value' := v\<rparr>])"

definition Err_unwrap :: "heap \<Rightarrow> addr \<Rightarrow> outcome" where
  "Err_unwrap h self = (Inr (value' (h ! self)), h)"

definition Err_fmap :: "heap \<Rightarrow> addr \<Rightarrow> callable \<Rightarrow> outcome" where
  "Err_fmap h self f = (Inr (PRef self), h)"

definition Err_and_fmap :: "heap \<Rightarrow> addr \<Rightarrow> callable \<Rightarrow> outcome" where
  "Err_and_fmap = Err_fmap"

definition Err_bind :: "heap \<Rightarrow> addr \<Rightarrow> callable \<Rightarrow> outcome" where
  "Err_bind h self f = (Inr (PRef self), h)"

definition Err_and_bind :: "heap \<Rightarrow> addr \<Rightarrow> callable \<Rightarrow> outcome" where
  "Err_and_bind = Err_bind"

definition Err_or_bind :: "heap \<Rightarrow> addr \<Rightarrow> callable \<Rightarrow> outcome" where
  "Err_or_bind h self f = f (value' (h ! self)) h"

definition Err_join :: "heap \<Rightarrow> addr \<Rightarrow> pyval \<Rightarrow> outcome" where
  "Err_join h self other =
     (case getattr_value h other of
        Inl e \<Rightarrow> (Inl e, h)
      | Inr ov \<Rightarrow>
          (Inr (PRef (fst (Err_init h (PTuple [value' (h ! self), ov])))),
           snd (Err_init h (PTuple [value' (h ! self), ov]))))"

definition Err_or_fmap :: "heap \<Rightarrow> addr \<Rightarrow> callable \<Rightarrow> outcome" where
  "Err_or_fmap h self f =
     (case f (value' (h ! self)) h of
        (Inr y, h1) \<Rightarrow> (Inr (PRef (fst (Err_init h1 y))), snd (Err_init h1 y))
      | (Inl e, h1) \<Rightarrow>
          if isinstance_Exception e
          then (Inr (PRef (fst (Err_init h1 (PExc e)))), snd (Err_init h1 (PExc e)))
          else (Inl e, h1))"

section \<open>Method calls on a \<^verbatim>\<open>Result\<close>\<close>

text \<open>
  A call \<^verbatim>\<open>r.m(...)\<close> looks the method up in the class of \<^verbatim>\<open>r\<close>. The
  functions below are that lookup, one for each method name of the two classes.
\<close>

definition bool' :: "heap \<Rightarrow> addr \<Rightarrow> outcome" where
  "bool' h self = (case cls (h ! self) of Ok \<Rightarrow> Ok_bool h self | Err \<Rightarrow> Err_bool h self)"

definition wrap :: "heap \<Rightarrow> addr \<Rightarrow> pyval \<Rightarrow> outcome" where
  "wrap h self v = (case cls (h ! self) of Ok \<Rightarrow> Ok_wrap h self v | Err \<Rightarrow> Err_wrap h self v)"

definition unwrap :: "heap \<Rightarrow> addr \<Rightarrow> outcome" where
  "unwrap h self = (case cls (h ! self) of Ok \<Rightarrow> Ok_unwrap h self | Err \<Rightarrow> Err_unwrap h self)"

definition fmap :: "heap \<Rightarrow> addr \<Rightarrow> callable \<Rightarrow> outcome" where
  "fmap h self f = (case cls (h ! self) of Ok \<Rightarrow> Ok_fmap h self f | Err \<Rightarrow> Err_fmap h self f)"

definition and_fmap :: "heap \<Rightarrow> addr \<Rightarrow> callable \<Rightarrow> outcome" where
  "and_fmap h self f =
     (case cls (h ! self) of Ok \<Rightarrow> Ok_and_fmap h self f | Err \<Rightarrow> Err_and_fmap h self f)"

definition bind :: "heap \<Rightarrow> addr \<Rightarrow> callable \<Rightarrow> outcome" where
  "bind h self f = (case cls (h ! self) of Ok \<Rightarrow> Ok_bind h self f | Err \<Rightarrow> Err_bind h self f)"

definition and_bind :: "heap \<Rightarrow> addr \<Rightarrow> callable \<Rightarrow> outcome" where
  "and_bind h self f =
     (case cls (h ! self) of Ok \<Rightarrow> Ok_and_bind h self f | Err \<Rightarrow> Err_and_bind h self f)"

definition or_fmap :: "heap \<Rightarrow> addr \<Rightarrow> callable \<Rightarrow> outcome" where
  "or_fmap h self f =
     (case cls (h ! self) of Ok \<Rightarrow> Ok_or_fmap h self f | Err \<Rightarrow> Err_or_fmap h self f)"

definition or_bind :: "heap \<Rightarrow> addr \<Rightarrow> callable \<Rightarrow> outcome" where
  "or_bind h self f =
     (case cls (h ! self) of Ok \<Rightarrow> Ok_or_bind h self f | Err \<Rightarrow> Err_or_bind h self f)"

definition join :: "heap \<Rightarrow> addr \<Rightarrow> pyval \<Rightarrow> outcome" where
  "join h self other =
     (case cls (h ! self) of Ok \<Rightarrow> Ok_join h self other | Err \<Rightarrow> Err_join h self other)"

text \<open>
  \<^verbatim>\<open>ResultAbc.flatten\<close>, inherited by both classes. The test is on \<^verbatim>\<open>self\<close>,
  as the source has it:
  \<^verbatim>\<open>
    if isinstance(self, ResultAbc):
        return self.unwrap()
    else:
        return self
  \<close>
\<close>

definition flatten :: "heap \<Rightarrow> addr \<Rightarrow> outcome" where
  "flatten h self =
     (if isinstance_ResultAbc h (PRef self) then unwrap h self else (Inr (PRef self), h))"

text \<open>
  The operations of a \<^verbatim>\<open>Result\<close> as data, so that a statement can range over
  all of them: \<open>call h r m\<close> is the call of the operation \<open>m\<close> on the object at \<open>r\<close>.
\<close>

datatype operation =
    Bool
  | Wrap pyval
  | Unwrap
  | Fmap callable
  | And_fmap callable
  | Bind callable
  | And_bind callable
  | Or_fmap callable
  | Or_bind callable
  | Join pyval
  | Flatten

fun call :: "heap \<Rightarrow> addr \<Rightarrow> operation \<Rightarrow> outcome" where
  "call h r Bool = bool' h r"
| "call h r (Wrap v) = wrap h r v"
| "call h r Unwrap = unwrap h r"
| "call h r (Fmap f) = fmap h r f"
| "call h r (And_fmap f) = and_fmap h r f"
| "call h r (Bind f) = bind h r f"
| "call h r (And_bind f) = and_bind h r f"
| "call h r (Or_fmap f) = or_fmap h r f"
| "call h r (Or_bind f) = or_bind h r f"
| "call h r (Join other) = join h r other"
| "call h r Flatten = flatten h r"

text \<open>
  The caller-supplied function that an operation runs, by the class of the receiver:
  \<^verbatim>\<open>fmap\<close>, \<^verbatim>\<open>and_fmap\<close>, \<^verbatim>\<open>bind\<close> and \<^verbatim>\<open>and_bind\<close> call \<open>f\<close> in class
  \<^verbatim>\<open>Ok\<close> and return \<^verbatim>\<open>self\<close> in class \<^verbatim>\<open>Err\<close>; \<^verbatim>\<open>or_fmap\<close> and \<^verbatim>\<open>or_bind\<close>
  call \<open>f\<close> in class \<^verbatim>\<open>Err\<close> and return \<^verbatim>\<open>self\<close> in class \<^verbatim>\<open>Ok\<close>; no other
  operation is given a function. \<open>store_after_callback h r m\<close> is the store as that
  function leaves it when it is run on the contained value, and the store before
  the call when no function is run.
\<close>

fun runs_callback :: "variant \<Rightarrow> operation \<Rightarrow> callable option" where
  "runs_callback Ok (Fmap f) = Some f"
| "runs_callback Ok (And_fmap f) = Some f"
| "runs_callback Ok (Bind f) = Some f"
| "runs_callback Ok (And_bind f) = Some f"
| "runs_callback Err (Or_fmap f) = Some f"
| "runs_callback Err (Or_bind f) = Some f"
| "runs_callback _ _ = None"

definition store_after_callback :: "heap \<Rightarrow> addr \<Rightarrow> operation \<Rightarrow> heap" where
  "store_after_callback h r m =
     (case runs_callback (cls (h ! r)) m of
        None \<Rightarrow> h
      | Some f \<Rightarrow> snd (f (value' (h ! r)) h))"

section \<open>The lifting helper\<close>

text \<open>
  \<^verbatim>\<open>
    def check_f(f, *a, **kw):
        try:
            return Ok(f(*a, **kw))
        except Exception as e:
            return Err(e)
  \<close>
\<close>

definition check_f :: "heap \<Rightarrow> callable_star \<Rightarrow> pyval list \<Rightarrow> (string \<times> pyval) list \<Rightarrow> outcome" where
  "check_f h f a kw =
     (case f a kw h of
        (Inr y, h1) \<Rightarrow> (Inr (PRef (fst (Ok_init h1 y))), snd (Ok_init h1 y))
      | (Inl e, h1) \<Rightarrow>
          if isinstance_Exception e
          then (Inr (PRef (fst (Err_init h1 (PExc e)))), snd (Err_init h1 (PExc e)))
          else (Inl e, h1))"

section \<open>Caller-supplied functions used as concrete inputs\<close>

text \<open>
  \<open>returning c\<close> is \<^verbatim>\<open>lambda x: c\<close>; \<open>raising e\<close> is a function whose body is
  \<^verbatim>\<open>raise e\<close>; \<open>Ok_callable\<close> is the class \<^verbatim>\<open>Ok\<close> passed as a function, as in
  \<^verbatim>\<open>r.or_bind(Ok)\<close>; \<open>rewrapping a c\<close> is \<^verbatim>\<open>lambda x: r.wrap(c)\<close> for the object
  \<^verbatim>\<open>r\<close> at address \<open>a\<close>.
\<close>

definition returning :: "pyval \<Rightarrow> callable" where
  "returning c = (\<lambda>v s. (Inr c, s))"

definition raising :: "pyexc \<Rightarrow> callable" where
  "raising e = (\<lambda>v s. (Inl e, s))"

definition Ok_callable :: callable where
  "Ok_callable = (\<lambda>v s. (Inr (PRef (fst (Ok_init s v))), snd (Ok_init s v)))"

definition rewrapping :: "addr \<Rightarrow> pyval \<Rightarrow> callable" where
  "rewrapping a c = (\<lambda>v s. wrap s a c)"

section \<open>Properties\<close>

lemmas Ok_defs =
  Ok_bool_def Ok_wrap_def Ok_unwrap_def Ok_fmap_def Ok_and_fmap_def Ok_bind_def Ok_and_bind_def
  Ok_or_fmap_def Ok_or_bind_def Ok_join_def

lemmas Err_defs =
  Err_bool_def Err_wrap_def Err_unwrap_def Err_fmap_def Err_and_fmap_def Err_bind_def
  Err_and_bind_def Err_or_fmap_def Err_or_bind_def Err_join_def

lemmas lookup_defs =
  bool'_def wrap_def unwrap_def fmap_def and_fmap_def bind_def and_bind_def or_fmap_def
  or_bind_def join_def

lemmas init_defs = Ok_init_def Err_init_def

lemmas sample_defs =
  returning_def raising_def Ok_callable_def isinstance_Exception_def ZeroDivisionError_def
  AttributeError_def SystemExit_def KeyboardInterrupt_def StopIteration_def rewrapping_def

subsection \<open>\<^verbatim>\<open>unwrap\<close>\<close>

text \<open>
  C1, as the code has it. For every value \<open>v\<close>, \<^verbatim>\<open>unwrap\<close> on an \<^verbatim>\<open>Ok\<close> holding
  \<open>v\<close> returns \<open>v\<close>. For every error \<open>e\<close>, \<^verbatim>\<open>unwrap\<close> on an \<^verbatim>\<open>Err\<close> holding
  \<open>e\<close> returns \<open>e\<close> as well: \<^verbatim>\<open>Err.unwrap\<close> is \<^verbatim>\<open>return self.value\<close>, it raises
  nothing. Neither call changes the store.
\<close>

theorem unwrap_returns_contained_value:
  "r < length h \<Longrightarrow>
   (h ! r = \<lparr>cls = Ok, value' = v\<rparr> \<longrightarrow> unwrap h r = (Inr v, h)) \<and>
   (h ! r = \<lparr>cls = Err, value' = e\<rparr> \<longrightarrow> unwrap h r = (Inr e, h))"
  by (simp add: unwrap_def Ok_unwrap_def Err_unwrap_def)

text \<open>C1, witness: \<^verbatim>\<open>Ok(7).unwrap()\<close> and \<^verbatim>\<open>Err("boom").unwrap()\<close>.\<close>

theorem unwrap_returns_contained_value_witness:
  "unwrap (snd (Ok_init [] (PInt 7))) (fst (Ok_init [] (PInt 7)))
     = (Inr (PInt 7), [\<lparr>cls = Ok, value' = PInt 7\<rparr>]) \<and>
   unwrap (snd (Err_init [] (PStr ''boom''))) (fst (Err_init [] (PStr ''boom'')))
     = (Inr (PStr ''boom''), [\<lparr>cls = Err, value' = PStr ''boom''\<rparr>])"
  using unwrap_returns_contained_value
          [where r = 0 and h = "[\<lparr>cls = Ok, value' = PInt 7\<rparr>]" and v = "PInt 7"]
        unwrap_returns_contained_value
          [where r = 0 and h = "[\<lparr>cls = Err, value' = PStr ''boom''\<rparr>]" and e = "PStr ''boom''"]
  by (simp add: init_defs)

text \<open>
  C1 as stated fails: \<^verbatim>\<open>Err("boom").unwrap()\<close> does not raise, it returns the
  string.
\<close>

theorem unwrap_on_Err_raises_counterexample:
  "\<not> isl (fst (unwrap (snd (Err_init [] (PStr ''boom''))) (fst (Err_init [] (PStr ''boom''))))) \<and>
   fst (unwrap (snd (Err_init [] (PStr ''boom''))) (fst (Err_init [] (PStr ''boom''))))
     = Inr (PStr ''boom'')"
  by (simp add: init_defs unwrap_def Err_unwrap_def)

subsection \<open>\<^verbatim>\<open>flatten\<close>\<close>

text \<open>
  The test in \<^verbatim>\<open>flatten\<close> is \<^verbatim>\<open>isinstance(self, ResultAbc)\<close>, which holds of every
  receiver, so the call is \<^verbatim>\<open>self.unwrap()\<close> whatever the contained value is.
\<close>

lemma flatten_is_unwrap: "flatten h r = (Inr (value' (h ! r)), h)"
  by (cases "cls (h ! r)") (simp_all add: flatten_def unwrap_def Ok_unwrap_def Err_unwrap_def)

text \<open>A nested \<^verbatim>\<open>Result\<close> therefore comes out: one level of nesting is removed.\<close>

lemma flatten_nested:
  "h ! r = \<lparr>cls = c, value' = PRef a\<rparr> \<Longrightarrow> flatten h r = (Inr (PRef a), h)"
  by (simp add: flatten_is_unwrap)

text \<open>
  C2, at the input \<^verbatim>\<open>Ok(5).flatten()\<close>: the contained value is not a \<^verbatim>\<open>Result\<close>,
  and the call returns the integer \<open>5\<close> itself, not the receiver.
\<close>

theorem flatten_of_plain_value_is_not_identity:
  "fst (flatten (snd (Ok_init [] (PInt 5))) (fst (Ok_init [] (PInt 5)))) = Inr (PInt 5) \<and>
   fst (flatten (snd (Ok_init [] (PInt 5))) (fst (Ok_init [] (PInt 5))))
     \<noteq> Inr (PRef (fst (Ok_init [] (PInt 5))))"
  by (simp add: init_defs flatten_def unwrap_def Ok_unwrap_def)

subsection \<open>\<^verbatim>\<open>fmap\<close> and \<^verbatim>\<open>and_fmap\<close>\<close>

text \<open>
  C3, as the code has it. On an \<^verbatim>\<open>Ok\<close> holding \<open>v\<close>: if \<open>f v\<close> returns \<open>y\<close>, the call
  returns a new \<^verbatim>\<open>Ok\<close> holding \<open>y\<close>; if \<open>f v\<close> raises an instance \<open>x\<close> of
  \<^verbatim>\<open>Exception\<close>, the call returns a new \<^verbatim>\<open>Err\<close> holding \<open>x\<close>; if \<open>f v\<close> raises an
  exception that is not an instance of \<^verbatim>\<open>Exception\<close>, the clause
  \<^verbatim>\<open>except Exception\<close> does not match and the exception leaves the call. On an
  \<^verbatim>\<open>Err\<close> the receiver itself is returned and the store is untouched.
  \<^verbatim>\<open>and_fmap\<close> is the same method under a second name.
\<close>

theorem fmap_captures_Exception:
  "r < length h \<Longrightarrow>
   (h ! r = \<lparr>cls = Ok, value' = v\<rparr> \<and> f v h = (Inr y, h') \<longrightarrow>
      fmap h r f = (Inr (PRef (length h')), h' @ [\<lparr>cls = Ok, value' = y\<rparr>])) \<and>
   (h ! r = \<lparr>cls = Ok, value' = v\<rparr> \<and> f v h = (Inl x, h') \<and> isinstance_Exception x \<longrightarrow>
      fmap h r f = (Inr (PRef (length h')), h' @ [\<lparr>cls = Err, value' = PExc x\<rparr>])) \<and>
   (h ! r = \<lparr>cls = Ok, value' = v\<rparr> \<and> f v h = (Inl x, h') \<and> \<not> isinstance_Exception x \<longrightarrow>
      fmap h r f = (Inl x, h')) \<and>
   (h ! r = \<lparr>cls = Err, value' = e\<rparr> \<longrightarrow> fmap h r f = (Inr (PRef r), h)) \<and>
   and_fmap h r f = fmap h r f"
  by (simp add: fmap_def and_fmap_def Ok_and_fmap_def Err_and_fmap_def Ok_fmap_def Err_fmap_def
      init_defs split: variant.splits)

text \<open>
  C3, witness: on \<^verbatim>\<open>Ok(3)\<close>, a function returning \<open>4\<close>, one raising
  \<^verbatim>\<open>ZeroDivisionError\<close> and one raising \<^verbatim>\<open>KeyboardInterrupt\<close>; on
  \<^verbatim>\<open>Err("boom")\<close>, any function.
\<close>

theorem fmap_captures_Exception_witness:
  "fmap [\<lparr>cls = Ok, value' = PInt 3\<rparr>] 0 (returning (PInt 4))
     = (Inr (PRef 1), [\<lparr>cls = Ok, value' = PInt 3\<rparr>, \<lparr>cls = Ok, value' = PInt 4\<rparr>]) \<and>
   fmap [\<lparr>cls = Ok, value' = PInt 3\<rparr>] 0 (raising ZeroDivisionError)
     = (Inr (PRef 1),
        [\<lparr>cls = Ok, value' = PInt 3\<rparr>, \<lparr>cls = Err, value' = PExc ZeroDivisionError\<rparr>]) \<and>
   fmap [\<lparr>cls = Ok, value' = PInt 3\<rparr>] 0 (raising KeyboardInterrupt)
     = (Inl KeyboardInterrupt, [\<lparr>cls = Ok, value' = PInt 3\<rparr>]) \<and>
   fmap [\<lparr>cls = Err, value' = PStr ''boom''\<rparr>] 0 (returning (PInt 4))
     = (Inr (PRef 0), [\<lparr>cls = Err, value' = PStr ''boom''\<rparr>])"
  using fmap_captures_Exception
          [where r = 0 and h = "[\<lparr>cls = Ok, value' = PInt 3\<rparr>]" and v = "PInt 3"
             and f = "returning (PInt 4)" and y = "PInt 4"
             and h' = "[\<lparr>cls = Ok, value' = PInt 3\<rparr>]"]
        fmap_captures_Exception
          [where r = 0 and h = "[\<lparr>cls = Ok, value' = PInt 3\<rparr>]" and v = "PInt 3"
             and f = "raising ZeroDivisionError" and x = ZeroDivisionError
             and h' = "[\<lparr>cls = Ok, value' = PInt 3\<rparr>]"]
        fmap_captures_Exception
          [where r = 0 and h = "[\<lparr>cls = Ok, value' = PInt 3\<rparr>]" and v = "PInt 3"
             and f = "raising KeyboardInterrupt" and x = KeyboardInterrupt
             and h' = "[\<lparr>cls = Ok, value' = PInt 3\<rparr>]"]
        fmap_captures_Exception
          [where r = 0 and h = "[\<lparr>cls = Err, value' = PStr ''boom''\<rparr>]"
             and e = "PStr ''boom''" and f = "returning (PInt 4)"]
  by (simp add: sample_defs)

text \<open>
  C3 as stated fails: a function that raises \<^verbatim>\<open>SystemExit\<close> (as \<^verbatim>\<open>sys.exit\<close> does)
  is not caught on \<^verbatim>\<open>Ok(1)\<close>; the exception leaves \<^verbatim>\<open>fmap\<close>.
\<close>

theorem fmap_no_exception_escapes_counterexample:
  "isl (fst (fmap [\<lparr>cls = Ok, value' = PInt 1\<rparr>] 0 (raising SystemExit))) \<and>
   fst (fmap [\<lparr>cls = Ok, value' = PInt 1\<rparr>] 0 (raising SystemExit)) = Inl SystemExit"
  by (simp add: fmap_def Ok_fmap_def sample_defs)

subsection \<open>\<^verbatim>\<open>bind\<close> and \<^verbatim>\<open>and_bind\<close>\<close>

text \<open>
  C4. On an \<^verbatim>\<open>Ok\<close> holding \<open>v\<close>, \<^verbatim>\<open>bind\<close> is exactly the call \<open>f v\<close>: its result
  and its store, nothing wrapped around it. On an \<^verbatim>\<open>Err\<close> the receiver itself is
  returned and the store is the one before the call, whatever \<open>f\<close> is: \<open>f\<close> is not
  run. \<^verbatim>\<open>and_bind\<close> is the same method under a second name.
\<close>

theorem bind_applies_on_Ok_only:
  "r < length h \<Longrightarrow>
   (h ! r = \<lparr>cls = Ok, value' = v\<rparr> \<longrightarrow> bind h r f = f v h \<and> and_bind h r f = f v h) \<and>
   (h ! r = \<lparr>cls = Err, value' = e\<rparr> \<longrightarrow>
      bind h r f = (Inr (PRef r), h) \<and> and_bind h r f = (Inr (PRef r), h))"
  by (simp add: bind_def and_bind_def Ok_and_bind_def Err_and_bind_def Ok_bind_def Err_bind_def)

text \<open>
  C4, witness: \<^verbatim>\<open>Ok(3).bind(Ok)\<close> is the \<^verbatim>\<open>Ok(3)\<close> that the function built;
  \<^verbatim>\<open>Err("boom").bind(f)\<close> with an \<open>f\<close> that would raise returns the receiver.
\<close>

theorem bind_applies_on_Ok_only_witness:
  "bind [\<lparr>cls = Ok, value' = PInt 3\<rparr>] 0 Ok_callable
     = (Inr (PRef 1), [\<lparr>cls = Ok, value' = PInt 3\<rparr>, \<lparr>cls = Ok, value' = PInt 3\<rparr>]) \<and>
   bind [\<lparr>cls = Err, value' = PStr ''boom''\<rparr>] 0 (raising ZeroDivisionError)
     = (Inr (PRef 0), [\<lparr>cls = Err, value' = PStr ''boom''\<rparr>])"
  using bind_applies_on_Ok_only
          [where r = 0 and h = "[\<lparr>cls = Ok, value' = PInt 3\<rparr>]" and v = "PInt 3"
             and f = Ok_callable]
        bind_applies_on_Ok_only
          [where r = 0 and h = "[\<lparr>cls = Err, value' = PStr ''boom''\<rparr>]"
             and e = "PStr ''boom''" and f = "raising ZeroDivisionError"]
  by (simp add: sample_defs init_defs)

subsection \<open>\<^verbatim>\<open>or_fmap\<close>\<close>

text \<open>
  C5, as the code has it. On an \<^verbatim>\<open>Err\<close> holding \<open>e\<close>: if \<open>g e\<close> returns \<open>y\<close>, the call
  returns a new \<^verbatim>\<open>Err\<close> holding \<open>y\<close>; if \<open>g e\<close> raises an instance \<open>x\<close> of
  \<^verbatim>\<open>Exception\<close>, the call returns a new \<^verbatim>\<open>Err\<close> holding \<open>x\<close>; an exception that is
  not an instance of \<^verbatim>\<open>Exception\<close> leaves the call. On an \<^verbatim>\<open>Ok\<close> the receiver
  itself is returned. So whenever \<^verbatim>\<open>or_fmap\<close> on an \<^verbatim>\<open>Err\<close> returns, what it returns
  is an \<^verbatim>\<open>Err\<close>.
\<close>

theorem or_fmap_stays_Err:
  "r < length h \<Longrightarrow>
   (h ! r = \<lparr>cls = Err, value' = e\<rparr> \<and> g e h = (Inr y, h') \<longrightarrow>
      or_fmap h r g = (Inr (PRef (length h')), h' @ [\<lparr>cls = Err, value' = y\<rparr>])) \<and>
   (h ! r = \<lparr>cls = Err, value' = e\<rparr> \<and> g e h = (Inl x, h') \<and> isinstance_Exception x \<longrightarrow>
      or_fmap h r g = (Inr (PRef (length h')), h' @ [\<lparr>cls = Err, value' = PExc x\<rparr>])) \<and>
   (h ! r = \<lparr>cls = Err, value' = e\<rparr> \<and> g e h = (Inl x, h') \<and> \<not> isinstance_Exception x \<longrightarrow>
      or_fmap h r g = (Inl x, h')) \<and>
   (h ! r = \<lparr>cls = Ok, value' = v\<rparr> \<longrightarrow> or_fmap h r g = (Inr (PRef r), h)) \<and>
   (h ! r = \<lparr>cls = Err, value' = e\<rparr> \<and> or_fmap h r g = (Inr z, k) \<longrightarrow>
      (\<exists>a. z = PRef a \<and> a < length k \<and> cls (k ! a) = Err))"
proof -
  assume live: "r < length h"
  have ret: "h ! r = \<lparr>cls = Err, value' = e\<rparr> \<Longrightarrow> g e h = (Inr y, h') \<Longrightarrow>
      or_fmap h r g = (Inr (PRef (length h')), h' @ [\<lparr>cls = Err, value' = y\<rparr>])" for y h'
    by (simp add: or_fmap_def Err_or_fmap_def init_defs)
  have caught: "h ! r = \<lparr>cls = Err, value' = e\<rparr> \<Longrightarrow> g e h = (Inl x, h') \<Longrightarrow>
      isinstance_Exception x \<Longrightarrow>
      or_fmap h r g = (Inr (PRef (length h')), h' @ [\<lparr>cls = Err, value' = PExc x\<rparr>])" for x h'
    by (simp add: or_fmap_def Err_or_fmap_def init_defs)
  have escapes: "h ! r = \<lparr>cls = Err, value' = e\<rparr> \<Longrightarrow> g e h = (Inl x, h') \<Longrightarrow>
      \<not> isinstance_Exception x \<Longrightarrow> or_fmap h r g = (Inl x, h')" for x h'
    by (simp add: or_fmap_def Err_or_fmap_def)
  have pass: "h ! r = \<lparr>cls = Ok, value' = v\<rparr> \<Longrightarrow> or_fmap h r g = (Inr (PRef r), h)"
    by (simp add: or_fmap_def Ok_or_fmap_def)
  have stays: "\<exists>a. z = PRef a \<and> a < length k \<and> cls (k ! a) = Err"
    if obj: "h ! r = \<lparr>cls = Err, value' = e\<rparr>" and res: "or_fmap h r g = (Inr z, k)"
  proof (cases "g e h")
    case (Pair out s)
    show ?thesis
    proof (cases out)
      case (Inr y')
      with Pair obj res ret [of y' s] show ?thesis by auto
    next
      case (Inl x')
      show ?thesis
      proof (cases "isinstance_Exception x'")
        case True
        with Inl Pair obj res caught [of x' s] show ?thesis by auto
      next
        case False
        with Inl Pair obj res escapes [of x' s] show ?thesis by auto
      qed
    qed
  qed
  from ret caught escapes pass stays show ?thesis by blast
qed

text \<open>
  C5, witness: on \<^verbatim>\<open>Err("boom")\<close>, a function returning \<open>4\<close> and one raising
  \<^verbatim>\<open>ZeroDivisionError\<close> both give an \<^verbatim>\<open>Err\<close>, one raising
  \<^verbatim>\<open>KeyboardInterrupt\<close> is not caught; on \<^verbatim>\<open>Ok(3)\<close> the receiver is returned.
\<close>

theorem or_fmap_stays_Err_witness:
  "or_fmap [\<lparr>cls = Err, value' = PStr ''boom''\<rparr>] 0 (returning (PInt 4))
     = (Inr (PRef 1), [\<lparr>cls = Err, value' = PStr ''boom''\<rparr>, \<lparr>cls = Err, value' = PInt 4\<rparr>]) \<and>
   or_fmap [\<lparr>cls = Err, value' = PStr ''boom''\<rparr>] 0 (raising ZeroDivisionError)
     = (Inr (PRef 1),
        [\<lparr>cls = Err, value' = PStr ''boom''\<rparr>, \<lparr>cls = Err, value' = PExc ZeroDivisionError\<rparr>]) \<and>
   or_fmap [\<lparr>cls = Err, value' = PStr ''boom''\<rparr>] 0 (raising KeyboardInterrupt)
     = (Inl KeyboardInterrupt, [\<lparr>cls = Err, value' = PStr ''boom''\<rparr>]) \<and>
   or_fmap [\<lparr>cls = Ok, value' = PInt 3\<rparr>] 0 (returning (PInt 4))
     = (Inr (PRef 0), [\<lparr>cls = Ok, value' = PInt 3\<rparr>]) \<and>
   (\<exists>a. PRef 1 = PRef a \<and>
        a < length [\<lparr>cls = Err, value' = PStr ''boom''\<rparr>, \<lparr>cls = Err, value' = PInt 4\<rparr>] \<and>
        cls ([\<lparr>cls = Err, value' = PStr ''boom''\<rparr>, \<lparr>cls = Err, value' = PInt 4\<rparr>] ! a) = Err)"
  using or_fmap_stays_Err
          [where r = 0 and h = "[\<lparr>cls = Err, value' = PStr ''boom''\<rparr>]" and e = "PStr ''boom''"
             and g = "returning (PInt 4)" and y = "PInt 4"
             and h' = "[\<lparr>cls = Err, value' = PStr ''boom''\<rparr>]" and z = "PRef 1"
             and k = "[\<lparr>cls = Err, value' = PStr ''boom''\<rparr>, \<lparr>cls = Err, value' = PInt 4\<rparr>]"]
        or_fmap_stays_Err
          [where r = 0 and h = "[\<lparr>cls = Err, value' = PStr ''boom''\<rparr>]" and e = "PStr ''boom''"
             and g = "raising ZeroDivisionError" and x = ZeroDivisionError
             and h' = "[\<lparr>cls = Err, value' = PStr ''boom''\<rparr>]"]
        or_fmap_stays_Err
          [where r = 0 and h = "[\<lparr>cls = Err, value' = PStr ''boom''\<rparr>]" and e = "PStr ''boom''"
             and g = "raising KeyboardInterrupt" and x = KeyboardInterrupt
             and h' = "[\<lparr>cls = Err, value' = PStr ''boom''\<rparr>]"]
        or_fmap_stays_Err
          [where r = 0 and h = "[\<lparr>cls = Ok, value' = PInt 3\<rparr>]" and v = "PInt 3"
             and g = "returning (PInt 4)"]
  by (simp add: sample_defs)

text \<open>
  C5 as stated fails: on \<^verbatim>\<open>Err("boom")\<close>, a function that raises
  \<^verbatim>\<open>KeyboardInterrupt\<close> is not caught, so the call yields no \<^verbatim>\<open>Err\<close> at all.
\<close>

theorem or_fmap_captures_every_raise_counterexample:
  "isl (fst (or_fmap [\<lparr>cls = Err, value' = PStr ''boom''\<rparr>] 0 (raising KeyboardInterrupt))) \<and>
   fst (or_fmap [\<lparr>cls = Err, value' = PStr ''boom''\<rparr>] 0 (raising KeyboardInterrupt))
     = Inl KeyboardInterrupt"
  by (simp add: or_fmap_def Err_or_fmap_def sample_defs)

subsection \<open>\<^verbatim>\<open>or_bind\<close>\<close>

text \<open>
  C6. On an \<^verbatim>\<open>Err\<close> holding \<open>e\<close>, \<^verbatim>\<open>or_bind\<close> is exactly the call \<open>k e\<close>; with the
  class \<^verbatim>\<open>Ok\<close> as the function, the result is a new \<^verbatim>\<open>Ok\<close> holding \<open>e\<close>, so an
  \<^verbatim>\<open>Err\<close> has been turned into an \<^verbatim>\<open>Ok\<close>. On an \<^verbatim>\<open>Ok\<close> the receiver itself is
  returned and the store is the one before the call, whatever \<open>k\<close> is.
\<close>

theorem or_bind_recovers:
  "r < length h \<Longrightarrow>
   (h ! r = \<lparr>cls = Err, value' = e\<rparr> \<longrightarrow> or_bind h r k = k e h) \<and>
   (h ! r = \<lparr>cls = Err, value' = e\<rparr> \<longrightarrow>
      or_bind h r Ok_callable = (Inr (PRef (length h)), h @ [\<lparr>cls = Ok, value' = e\<rparr>])) \<and>
   (h ! r = \<lparr>cls = Ok, value' = v\<rparr> \<longrightarrow> or_bind h r k = (Inr (PRef r), h))"
  by (simp add: or_bind_def Ok_or_bind_def Err_or_bind_def Ok_callable_def init_defs)

text \<open>
  C6, witness: \<^verbatim>\<open>Err("boom").or_bind(Ok)\<close> is an \<^verbatim>\<open>Ok\<close>;
  \<^verbatim>\<open>Ok(3).or_bind(k)\<close> with a \<open>k\<close> that would raise returns the receiver.
\<close>

theorem or_bind_recovers_witness:
  "or_bind [\<lparr>cls = Err, value' = PStr ''boom''\<rparr>] 0 Ok_callable
     = (Inr (PRef 1),
        [\<lparr>cls = Err, value' = PStr ''boom''\<rparr>, \<lparr>cls = Ok, value' = PStr ''boom''\<rparr>]) \<and>
   or_bind [\<lparr>cls = Err, value' = PStr ''boom''\<rparr>] 0 (returning (PRef 0))
     = (Inr (PRef 0), [\<lparr>cls = Err, value' = PStr ''boom''\<rparr>]) \<and>
   or_bind [\<lparr>cls = Ok, value' = PInt 3\<rparr>] 0 (raising ZeroDivisionError)
     = (Inr (PRef 0), [\<lparr>cls = Ok, value' = PInt 3\<rparr>])"
  using or_bind_recovers
          [where r = 0 and h = "[\<lparr>cls = Err, value' = PStr ''boom''\<rparr>]" and e = "PStr ''boom''"
             and k = "returning (PRef 0)"]
        or_bind_recovers
          [where r = 0 and h = "[\<lparr>cls = Ok, value' = PInt 3\<rparr>]" and v = "PInt 3"
             and k = "raising ZeroDivisionError"]
  by (simp add: sample_defs)

subsection \<open>\<^verbatim>\<open>join\<close>\<close>

text \<open>
  C7. The join of an \<^verbatim>\<open>Ok\<close> holding \<open>v\<close> with an \<^verbatim>\<open>Ok\<close> holding \<open>w\<close> is a new
  \<^verbatim>\<open>Ok\<close> holding the pair \<open>(v, w)\<close>; the join of an \<^verbatim>\<open>Err\<close> holding \<open>e\<close> with an
  \<^verbatim>\<open>Err\<close> holding \<open>d\<close> is a new \<^verbatim>\<open>Err\<close> holding the pair \<open>(e, d)\<close>.
\<close>

theorem join_same_variant_pairs:
  "r < length h \<Longrightarrow> q < length h \<Longrightarrow>
   (h ! r = \<lparr>cls = Ok, value' = v\<rparr> \<and> h ! q = \<lparr>cls = Ok, value' = w\<rparr> \<longrightarrow>
      join h r (PRef q) = (Inr (PRef (length h)), h @ [\<lparr>cls = Ok, value' = PTuple [v, w]\<rparr>])) \<and>
   (h ! r = \<lparr>cls = Err, value' = e\<rparr> \<and> h ! q = \<lparr>cls = Err, value' = d\<rparr> \<longrightarrow>
      join h r (PRef q) = (Inr (PRef (length h)), h @ [\<lparr>cls = Err, value' = PTuple [e, d]\<rparr>]))"
proof (intro conjI impI)
  assume "h ! r = \<lparr>cls = Ok, value' = v\<rparr> \<and> h ! q = \<lparr>cls = Ok, value' = w\<rparr>"
  then have "cls (h ! r) = Ok" and "value' (h ! r) = v" and "getattr_value h (PRef q) = Inr w"
    by simp_all
  then show "join h r (PRef q) = (Inr (PRef (length h)), h @ [\<lparr>cls = Ok, value' = PTuple [v, w]\<rparr>])"
    by (simp add: join_def Ok_join_def Ok_init_def)
next
  assume "h ! r = \<lparr>cls = Err, value' = e\<rparr> \<and> h ! q = \<lparr>cls = Err, value' = d\<rparr>"
  then have "cls (h ! r) = Err" and "value' (h ! r) = e" and "getattr_value h (PRef q) = Inr d"
    by simp_all
  then show "join h r (PRef q) = (Inr (PRef (length h)), h @ [\<lparr>cls = Err, value' = PTuple [e, d]\<rparr>])"
    by (simp add: join_def Err_join_def Err_init_def)
qed

text \<open>
  C7, witness: \<^verbatim>\<open>Ok(1).join(Ok(2))\<close> is \<^verbatim>\<open>Ok((1, 2))\<close> and
  \<^verbatim>\<open>Err("a").join(Err("b"))\<close> is \<^verbatim>\<open>Err(("a", "b"))\<close>.
\<close>

theorem join_same_variant_pairs_witness:
  "join [\<lparr>cls = Ok, value' = PInt 1\<rparr>, \<lparr>cls = Ok, value' = PInt 2\<rparr>] 0 (PRef 1)
     = (Inr (PRef 2),
        [\<lparr>cls = Ok, value' = PInt 1\<rparr>, \<lparr>cls = Ok, value' = PInt 2\<rparr>,
         \<lparr>cls = Ok, value' = PTuple [PInt 1, PInt 2]\<rparr>]) \<and>
   join [\<lparr>cls = Err, value' = PStr ''a''\<rparr>, \<lparr>cls = Err, value' = PStr ''b''\<rparr>] 0 (PRef 1)
     = (Inr (PRef 2),
        [\<lparr>cls = Err, value' = PStr ''a''\<rparr>, \<lparr>cls = Err, value' = PStr ''b''\<rparr>,
         \<lparr>cls = Err, value' = PTuple [PStr ''a'', PStr ''b'']\<rparr>])"
  using join_same_variant_pairs
          [where r = 0 and q = 1
             and h = "[\<lparr>cls = Ok, value' = PInt 1\<rparr>, \<lparr>cls = Ok, value' = PInt 2\<rparr>]"
             and v = "PInt 1" and w = "PInt 2"]
        join_same_variant_pairs
          [where r = 0 and q = 1
             and h = "[\<lparr>cls = Err, value' = PStr ''a''\<rparr>, \<lparr>cls = Err, value' = PStr ''b''\<rparr>]"
             and e = "PStr ''a''" and d = "PStr ''b''"]
  by simp

subsection \<open>\<^verbatim>\<open>check_f\<close>\<close>

text \<open>
  C8, as the code has it. If \<open>f\<close> applied to the arguments returns \<open>y\<close>, \<^verbatim>\<open>check_f\<close>
  returns a new \<^verbatim>\<open>Ok\<close> holding \<open>y\<close>; if it raises an instance \<open>x\<close> of \<^verbatim>\<open>Exception\<close>,
  \<^verbatim>\<open>check_f\<close> returns a new \<^verbatim>\<open>Err\<close> holding exactly \<open>x\<close> and raises nothing; an
  exception that is not an instance of \<^verbatim>\<open>Exception\<close> leaves the call.
\<close>

theorem check_f_captures_Exception:
  "(f a kw h = (Inr y, h') \<longrightarrow>
      check_f h f a kw = (Inr (PRef (length h')), h' @ [\<lparr>cls = Ok, value' = y\<rparr>])) \<and>
   (f a kw h = (Inl x, h') \<and> isinstance_Exception x \<longrightarrow>
      check_f h f a kw = (Inr (PRef (length h')), h' @ [\<lparr>cls = Err, value' = PExc x\<rparr>])) \<and>
   (f a kw h = (Inl x, h') \<and> \<not> isinstance_Exception x \<longrightarrow> check_f h f a kw = (Inl x, h'))"
  by (simp add: check_f_def init_defs)

text \<open>
  C8, witness: \<^verbatim>\<open>check_f(lambda: 5)\<close> is \<^verbatim>\<open>Ok(5)\<close>; \<^verbatim>\<open>check_f(lambda: 1/0)\<close>,
  whose function raises \<^verbatim>\<open>ZeroDivisionError\<close>, is an \<^verbatim>\<open>Err\<close> holding that
  exception; a function raising \<^verbatim>\<open>SystemExit\<close> is not caught.
\<close>

theorem check_f_captures_Exception_witness:
  "check_f [] (\<lambda>a kw s. (Inr (PInt 5), s)) [] [] = (Inr (PRef 0), [\<lparr>cls = Ok, value' = PInt 5\<rparr>]) \<and>
   check_f [] (\<lambda>a kw s. (Inl ZeroDivisionError, s)) [] []
     = (Inr (PRef 0), [\<lparr>cls = Err, value' = PExc ZeroDivisionError\<rparr>]) \<and>
   check_f [] (\<lambda>a kw s. (Inl SystemExit, s)) [] [] = (Inl SystemExit, [])"
  using check_f_captures_Exception
          [where f = "\<lambda>a kw s. (Inr (PInt 5), s)" and a = "[]" and kw = "[]" and h = "[]"
             and y = "PInt 5" and h' = "[]"]
        check_f_captures_Exception
          [where f = "\<lambda>a kw s. (Inl ZeroDivisionError, s)" and a = "[]" and kw = "[]"
             and h = "[]" and x = ZeroDivisionError and h' = "[]"]
        check_f_captures_Exception
          [where f = "\<lambda>a kw s. (Inl SystemExit, s)" and a = "[]" and kw = "[]"
             and h = "[]" and x = SystemExit and h' = "[]"]
  by (simp add: sample_defs)

text \<open>
  C8 as stated fails: \<^verbatim>\<open>check_f(sys.exit)\<close>, whose function raises
  \<^verbatim>\<open>SystemExit\<close>, does not return an \<^verbatim>\<open>Err\<close>; the exception leaves \<^verbatim>\<open>check_f\<close>.
\<close>

theorem check_f_captures_every_raise_counterexample:
  "isl (fst (check_f [] (\<lambda>a kw s. (Inl SystemExit, s)) [] [])) \<and>
   fst (check_f [] (\<lambda>a kw s. (Inl SystemExit, s)) [] []) = Inl SystemExit"
  by (simp add: check_f_def sample_defs)

subsection \<open>What an operation changes in the store\<close>

text \<open>The assignment in \<^verbatim>\<open>wrap\<close> replaces the slot and keeps the class.\<close>

lemma value'_update_conv: "x\<lparr>value' := v\<rparr> = \<lparr>cls = cls x, value' = v\<rparr>"
  by (cases x) simp

lemma wrap_in_place:
  "wrap h r v = (Inr (PRef r), h[r := \<lparr>cls = cls (h ! r), value' = v\<rparr>])"
  by (cases "cls (h ! r)") (simp_all add: wrap_def Ok_wrap_def Err_wrap_def value'_update_conv)

text \<open>
  An operation other than \<^verbatim>\<open>wrap\<close> that runs no function leaves the store as it
  is, or appends one new object to it.
\<close>

lemma call_frame_no_callback:
  assumes "runs_callback (cls (h ! r)) m = None" and "\<forall>v. m \<noteq> Wrap v"
  shows "snd (call h r m) = h \<or> (\<exists>x. snd (call h r m) = h @ [x])"
proof (cases m)
  case (Join other)
  show ?thesis
  proof (cases "getattr_value h other")
    case (Inl e)
    with Join show ?thesis
      by (cases "cls (h ! r)") (simp_all add: join_def Ok_join_def Err_join_def)
  next
    case (Inr ov)
    with Join show ?thesis
      by (cases "cls (h ! r)") (simp_all add: join_def Ok_join_def Err_join_def init_defs)
  qed
next
  case Flatten
  then show ?thesis by (simp add: flatten_is_unwrap)
next
  case Unwrap
  then show ?thesis
    by (cases "cls (h ! r)") (simp_all add: unwrap_def Ok_unwrap_def Err_unwrap_def)
next
  case Bool
  then show ?thesis
    by (cases "cls (h ! r)") (simp_all add: bool'_def Ok_bool_def Err_bool_def)
qed (use assms in \<open>cases "cls (h ! r)"; simp add: lookup_defs Ok_defs Err_defs\<close>)+

text \<open>
  An operation that runs the function \<open>f\<close> runs it once, on the contained value and
  in the store before the call, and returns the store that \<open>f\<close> left, with at most
  one new object appended.
\<close>

lemma call_frame_callback:
  assumes "runs_callback (cls (h ! r)) m = Some f"
  shows "snd (call h r m) = snd (f (value' (h ! r)) h) \<or>
         (\<exists>x. snd (call h r m) = snd (f (value' (h ! r)) h) @ [x])"
  using assms
  by (cases m; cases "cls (h ! r)"; cases "f (value' (h ! r)) h")
     (auto simp add: lookup_defs Ok_defs Err_defs init_defs split: sum.splits)

lemma call_frame:
  assumes "\<forall>v. m \<noteq> Wrap v"
  shows "snd (call h r m) = store_after_callback h r m \<or>
         (\<exists>x. snd (call h r m) = store_after_callback h r m @ [x])"
proof (cases "runs_callback (cls (h ! r)) m")
  case None
  with call_frame_no_callback [OF None assms] show ?thesis
    by (simp add: store_after_callback_def)
next
  case (Some f)
  with call_frame_callback [OF Some] show ?thesis
    by (simp add: store_after_callback_def)
qed

text \<open>
  C9, as the code has it. Let \<open>r\<close> be an object of the store, \<open>m\<close> any operation called
  on it, and \<open>s\<close> the store as left by the caller-supplied function that \<open>m\<close> runs (the
  store before the call when \<open>m\<close> runs none). \<^verbatim>\<open>wrap\<close> returns the receiver itself,
  and the store differs only at \<open>r\<close>, which keeps its class and holds the new value.
  Every other operation returns \<open>s\<close> itself or \<open>s\<close> with one new object appended: it
  changes no object of its own, neither the receiver nor any other, so every object
  of \<open>s\<close> has after the call the class and the value it has in \<open>s\<close>. No operation,
  \<^verbatim>\<open>wrap\<close> included, changes the class of an object of \<open>s\<close>. In particular, when no
  function is run, every object of the store has after the call the class it had
  before, and for an operation other than \<^verbatim>\<open>wrap\<close> its value too. What the
  supplied function itself does to the store while it runs stays done.
\<close>

theorem operations_change_no_object:
  assumes "r < length h"
  shows "(\<forall>v. m = Wrap v \<longrightarrow>
            call h r m = (Inr (PRef r), h[r := \<lparr>cls = cls (h ! r), value' = v\<rparr>])) \<and>
         ((\<forall>v. m \<noteq> Wrap v) \<longrightarrow>
            snd (call h r m) = store_after_callback h r m \<or>
            (\<exists>x. snd (call h r m) = store_after_callback h r m @ [x])) \<and>
         length (store_after_callback h r m) \<le> length (snd (call h r m)) \<and>
         (\<forall>a < length (store_after_callback h r m).
            cls (snd (call h r m) ! a) = cls (store_after_callback h r m ! a)) \<and>
         ((\<forall>v. m \<noteq> Wrap v) \<longrightarrow>
            (\<forall>a < length (store_after_callback h r m).
               snd (call h r m) ! a = store_after_callback h r m ! a)) \<and>
         (runs_callback (cls (h ! r)) m = None \<longrightarrow>
            (\<forall>a < length h. cls (snd (call h r m) ! a) = cls (h ! a))) \<and>
         (runs_callback (cls (h ! r)) m = None \<and> (\<forall>v. m \<noteq> Wrap v) \<longrightarrow>
            (\<forall>a < length h. snd (call h r m) ! a = h ! a))"
proof (cases "\<exists>v. m = Wrap v")
  case True
  then obtain v where m: "m = Wrap v" ..
  have same: "store_after_callback h r m = h"
    by (cases "cls (h ! r)") (simp_all add: m store_after_callback_def)
  have "cls (h[r := \<lparr>cls = cls (h ! r), value' = v\<rparr>] ! a) = cls (h ! a)" if "a < length h" for a
    using that by (cases "a = r") simp_all
  with m same show ?thesis
    by (simp add: wrap_in_place)
next
  case False
  then have other: "\<forall>v. m \<noteq> Wrap v" by simp
  let ?s = "store_after_callback h r m"
  from call_frame [OF other, of h r]
  consider "snd (call h r m) = ?s" | x where "snd (call h r m) = ?s @ [x]"
    by blast
  then have kept: "length ?s \<le> length (snd (call h r m)) \<and>
                   (\<forall>a < length ?s. snd (call h r m) ! a = ?s ! a)"
    by cases (simp_all add: nth_append)
  have none: "?s = h" if "runs_callback (cls (h ! r)) m = None"
    using that by (simp add: store_after_callback_def)
  from other kept none call_frame [OF other, of h r] show ?thesis
    by auto
qed

text \<open>
  C9, witness: \<^verbatim>\<open>wrap(9)\<close> on \<^verbatim>\<open>Ok(1)\<close> and on \<^verbatim>\<open>Err(1)\<close>; \<^verbatim>\<open>bind\<close> on
  \<^verbatim>\<open>Err("boom")\<close> with a function that would rewrap the receiver, which is not
  run; \<^verbatim>\<open>fmap\<close> on \<^verbatim>\<open>Ok(1)\<close> with the same function, which is run and whose store
  gets one new object; \<^verbatim>\<open>or_fmap\<close> on \<^verbatim>\<open>Err("boom")\<close> with a function that
  raises; \<^verbatim>\<open>Ok(1).join(Err("b"))\<close> and \<^verbatim>\<open>Ok(1).join(StopIteration(5))\<close>, which
  leave both objects as they were.
\<close>

theorem operations_change_no_object_witness:
  "call [\<lparr>cls = Ok, value' = PInt 1\<rparr>] 0 (Wrap (PInt 9))
     = (Inr (PRef 0), [\<lparr>cls = Ok, value' = PInt 9\<rparr>]) \<and>
   call [\<lparr>cls = Err, value' = PInt 1\<rparr>] 0 (Wrap (PInt 9))
     = (Inr (PRef 0), [\<lparr>cls = Err, value' = PInt 9\<rparr>]) \<and>
   call [\<lparr>cls = Err, value' = PStr ''boom''\<rparr>] 0 (Bind (rewrapping 0 (PInt 9)))
     = (Inr (PRef 0), [\<lparr>cls = Err, value' = PStr ''boom''\<rparr>]) \<and>
   store_after_callback [\<lparr>cls = Ok, value' = PInt 1\<rparr>] 0 (Fmap (rewrapping 0 (PInt 9)))
     = [\<lparr>cls = Ok, value' = PInt 9\<rparr>] \<and>
   call [\<lparr>cls = Ok, value' = PInt 1\<rparr>] 0 (Fmap (rewrapping 0 (PInt 9)))
     = (Inr (PRef 1), [\<lparr>cls = Ok, value' = PInt 9\<rparr>, \<lparr>cls = Ok, value' = PRef 0\<rparr>]) \<and>
   call [\<lparr>cls = Err, value' = PStr ''boom''\<rparr>] 0 (Or_fmap (raising ZeroDivisionError))
     = (Inr (PRef 1),
        [\<lparr>cls = Err, value' = PStr ''boom''\<rparr>, \<lparr>cls = Err, value' = PExc ZeroDivisionError\<rparr>]) \<and>
   call [\<lparr>cls = Ok, value' = PInt 1\<rparr>, \<lparr>cls = Err, value' = PStr ''b''\<rparr>] 0 (Join (PRef 1))
     = (Inr (PRef 2),
        [\<lparr>cls = Ok, value' = PInt 1\<rparr>, \<lparr>cls = Err, value' = PStr ''b''\<rparr>,
         \<lparr>cls = Ok, value' = PTuple [PInt 1, PStr ''b'']\<rparr>]) \<and>
   call [\<lparr>cls = Ok, value' = PInt 1\<rparr>] 0 (Join (PExc (StopIteration (PInt 5))))
     = (Inr (PRef 1),
        [\<lparr>cls = Ok, value' = PInt 1\<rparr>, \<lparr>cls = Ok, value' = PTuple [PInt 1, PInt 5]\<rparr>])"
  using operations_change_no_object
          [where r = 0 and h = "[\<lparr>cls = Ok, value' = PInt 1\<rparr>]" and m = "Wrap (PInt 9)"]
        operations_change_no_object
          [where r = 0 and h = "[\<lparr>cls = Err, value' = PInt 1\<rparr>]" and m = "Wrap (PInt 9)"]
        operations_change_no_object
          [where r = 0 and h = "[\<lparr>cls = Err, value' = PStr ''boom''\<rparr>]"
             and m = "Bind (rewrapping 0 (PInt 9))"]
        operations_change_no_object
          [where r = 0 and h = "[\<lparr>cls = Ok, value' = PInt 1\<rparr>]"
             and m = "Fmap (rewrapping 0 (PInt 9))"]
        operations_change_no_object
          [where r = 0 and h = "[\<lparr>cls = Err, value' = PStr ''boom''\<rparr>]"
             and m = "Or_fmap (raising ZeroDivisionError)"]
        operations_change_no_object
          [where r = 0
             and h = "[\<lparr>cls = Ok, value' = PInt 1\<rparr>, \<lparr>cls = Err, value' = PStr ''b''\<rparr>]"
             and m = "Join (PRef 1)"]
        operations_change_no_object
          [where r = 0 and h = "[\<lparr>cls = Ok, value' = PInt 1\<rparr>]"
             and m = "Join (PExc (StopIteration (PInt 5)))"]
  by (simp add: sample_defs wrap_in_place store_after_callback_def lookup_defs Ok_defs Err_defs
      init_defs lookup_value_def)

text \<open>
  C9 as stated fails: \<^verbatim>\<open>fmap\<close> is not \<^verbatim>\<open>wrap\<close>, yet after
  \<^verbatim>\<open>r.fmap(lambda x: r.wrap(9))\<close> on \<^verbatim>\<open>r = Ok(1)\<close> the receiver holds \<open>9\<close>: the
  function that \<^verbatim>\<open>fmap\<close> ran has rewrapped it.
\<close>

theorem other_operations_leave_value_counterexample:
  "[\<lparr>cls = Ok, value' = PInt 1\<rparr>] ! 0 = \<lparr>cls = Ok, value' = PInt 1\<rparr> \<and>
   snd (call [\<lparr>cls = Ok, value' = PInt 1\<rparr>] 0 (Fmap (rewrapping 0 (PInt 9)))) ! 0
     = \<lparr>cls = Ok, value' = PInt 9\<rparr> \<and>
   value' (snd (call [\<lparr>cls = Ok, value' = PInt 1\<rparr>] 0 (Fmap (rewrapping 0 (PInt 9)))) ! 0)
     \<noteq> value' ([\<lparr>cls = Ok, value' = PInt 1\<rparr>] ! 0)"
  by (simp add: fmap_def Ok_fmap_def rewrapping_def wrap_in_place init_defs)

subsection \<open>\<^verbatim>\<open>join\<close> on a mixed pair\<close>

text \<open>
  C10. The class of the receiver alone decides the result of \<^verbatim>\<open>join\<close>. For every
  \<^verbatim>\<open>Ok\<close> holding \<open>v\<close> and every \<^verbatim>\<open>Result\<close> object \<open>q\<close>, of either class, the call
  returns a new \<^verbatim>\<open>Ok\<close> holding the pair of \<open>v\<close> and the value of \<open>q\<close>; for every
  \<^verbatim>\<open>Err\<close> holding \<open>e\<close> it returns a new \<^verbatim>\<open>Err\<close> holding the pair of \<open>e\<close> and the
  value of \<open>q\<close>. Nothing is raised and the store is otherwise unchanged.
\<close>

theorem join_receiver_decides:
  "r < length h \<Longrightarrow> q < length h \<Longrightarrow>
   (h ! r = \<lparr>cls = Ok, value' = v\<rparr> \<longrightarrow>
      join h r (PRef q)
        = (Inr (PRef (length h)), h @ [\<lparr>cls = Ok, value' = PTuple [v, value' (h ! q)]\<rparr>])) \<and>
   (h ! r = \<lparr>cls = Err, value' = e\<rparr> \<longrightarrow>
      join h r (PRef q)
        = (Inr (PRef (length h)), h @ [\<lparr>cls = Err, value' = PTuple [e, value' (h ! q)]\<rparr>]))"
  by (cases "cls (h ! q)") (simp_all add: join_def Ok_join_def Err_join_def init_defs)

text \<open>
  C10, witness: \<^verbatim>\<open>Ok(1).join(Err("b"))\<close> is \<^verbatim>\<open>Ok((1, "b"))\<close> and
  \<^verbatim>\<open>Err("a").join(Ok(2))\<close> is \<^verbatim>\<open>Err(("a", 2))\<close>.
\<close>

theorem join_receiver_decides_witness:
  "join [\<lparr>cls = Ok, value' = PInt 1\<rparr>, \<lparr>cls = Err, value' = PStr ''b''\<rparr>] 0 (PRef 1)
     = (Inr (PRef 2),
        [\<lparr>cls = Ok, value' = PInt 1\<rparr>, \<lparr>cls = Err, value' = PStr ''b''\<rparr>,
         \<lparr>cls = Ok, value' = PTuple [PInt 1, PStr ''b'']\<rparr>]) \<and>
   join [\<lparr>cls = Err, value' = PStr ''a''\<rparr>, \<lparr>cls = Ok, value' = PInt 2\<rparr>] 0 (PRef 1)
     = (Inr (PRef 2),
        [\<lparr>cls = Err, value' = PStr ''a''\<rparr>, \<lparr>cls = Ok, value' = PInt 2\<rparr>,
         \<lparr>cls = Err, value' = PTuple [PStr ''a'', PInt 2]\<rparr>])"
  using join_receiver_decides
          [where r = 0 and q = 1
             and h = "[\<lparr>cls = Ok, value' = PInt 1\<rparr>, \<lparr>cls = Err, value' = PStr ''b''\<rparr>]"
             and v = "PInt 1"]
        join_receiver_decides
          [where r = 0 and q = 1
             and h = "[\<lparr>cls = Err, value' = PStr ''a''\<rparr>, \<lparr>cls = Ok, value' = PInt 2\<rparr>]"
             and e = "PStr ''a''"]
  by simp

end
